theory Spec2Isabelle
  imports Complex_Main "HOL-Library.Sublist"
begin

section \<open>The roofing quote engine\<close>

text \<open>
  The engine is the function \<^verbatim>\<open>calculate_quote(row, roofer)\<close> with its helper
  \<^verbatim>\<open>get_region_multiplier(zip_code)\<close>, given in \<^verbatim>\<open>docs/roofing_quote_context.md\<close>.
  A row is a dictionary from column names to dynamically typed values; the roofer profile
  is the object the onboarding form builds (\<^verbatim>\<open>RooferOnboarding.formData\<close>).

  Numbers are exact rationals: the rounding error of binary floating point is not part of
  this model, only the rounding that \<^verbatim>\<open>round(x, 2)\<close> performs by design. A string is a
  list of characters, each a code point below 256.
\<close>

subsection \<open>Values, errors and dictionaries\<close>

datatype pyval = PNone | PNum rat | PStr string

datatype py_error = TypeError | AttributeError | ZeroDivisionError | IndexError

type_synonym row = "string \<rightharpoonup> pyval"

text \<open>An exception ends the computation: the rest runs only on a value.\<close>

definition py_bind :: "py_error + 'a \<Rightarrow> ('a \<Rightarrow> py_error + 'b) \<Rightarrow> py_error + 'b" where
  "py_bind m f = (case m of Inl e \<Rightarrow> Inl e | Inr x \<Rightarrow> f x)"

text \<open>\<^verbatim>\<open>d.get(k, default)\<close>: the default is returned only when the key is missing.\<close>

definition dict_get :: "('k \<rightharpoonup> 'v) \<Rightarrow> 'k \<Rightarrow> 'v \<Rightarrow> 'v" where
  "dict_get d k dflt = (case d k of None \<Rightarrow> dflt | Some v \<Rightarrow> v)"

text \<open>Arithmetic and ordering against a number raise \<^verbatim>\<open>TypeError\<close> on \<^verbatim>\<open>None\<close>
  and on a string.\<close>

definition as_num :: "pyval \<Rightarrow> py_error + rat" where
  "as_num v = (case v of PNum x \<Rightarrow> Inr x | _ \<Rightarrow> Inl TypeError)"

text \<open>\<^verbatim>\<open>str.lower()\<close>. Among the code points below 256 the upper-case letters are
  A to Z and the Latin-1 capitals (192 to 222 without the multiplication sign 215); each is
  32 below its lower-case letter, and \<^verbatim>\<open>lower()\<close> leaves every other character as it
  is. A value that is not a string has no such method.\<close>

definition lower_char :: "char \<Rightarrow> char" where
  "lower_char c =
     (let n = (of_char c :: nat)
      in if (65 \<le> n \<and> n \<le> 90) \<or> (192 \<le> n \<and> n \<le> 222 \<and> n \<noteq> 215) then char_of (n + 32)
         else c)"

definition py_lower :: "pyval \<Rightarrow> py_error + string" where
  "py_lower v = (case v of PStr s \<Rightarrow> Inr (map lower_char s) | _ \<Rightarrow> Inl AttributeError)"

text \<open>\<^verbatim>\<open>f.split()\<close> cuts at runs of white space: among the code points below 256
  these are 9 to 13, 28 to 32, 133 and 160. \<^verbatim>\<open>[0]\<close> raises on an empty list.\<close>

definition is_space :: "char \<Rightarrow> bool" where
  "is_space c =
     (let n = (of_char c :: nat)
      in (9 \<le> n \<and> n \<le> 13) \<or> (28 \<le> n \<and> n \<le> 32) \<or> n = 133 \<or> n = 160)"

fun py_split_acc :: "string \<Rightarrow> string \<Rightarrow> string list" where
  "py_split_acc w [] = (if w = [] then [] else [rev w])"
| "py_split_acc w (c # cs) =
     (if is_space c then (if w = [] then py_split_acc [] cs else rev w # py_split_acc [] cs)
      else py_split_acc (c # w) cs)"

definition py_split :: "string \<Rightarrow> string list" where
  "py_split s = py_split_acc [] s"

definition py_first :: "'a list \<Rightarrow> py_error + 'a" where
  "py_first xs = (case xs of [] \<Rightarrow> Inl IndexError | x # _ \<Rightarrow> Inr x)"

definition py_div :: "rat \<Rightarrow> rat \<Rightarrow> py_error + rat" where
  "py_div a b = (if b = 0 then Inl ZeroDivisionError else Inr (a / b))"

text \<open>\<^verbatim>\<open>round(x, n)\<close>: to the nearest multiple of \<open>10^-n\<close>, a tie to the even one.\<close>

definition round_half_even :: "rat \<Rightarrow> int" where
  "round_half_even y =
     (let f = \<lfloor>y\<rfloor>; d = y - of_int f
      in if d < 1 / 2 then f else if 1 / 2 < d then f + 1 else if even f then f else f + 1)"

definition py_round :: "rat \<Rightarrow> nat \<Rightarrow> rat" where
  "py_round x n = of_int (round_half_even (x * 10 ^ n)) / 10 ^ n"

text \<open>\<^verbatim>\<open>s.startswith(tuple(ps))\<close>: some element of \<open>ps\<close> is a prefix of \<open>s\<close>.\<close>

definition startswith :: "string \<Rightarrow> string list \<Rightarrow> bool" where
  "startswith s ps = list_ex (\<lambda>p. prefix p s) ps"

subsection \<open>The roofer profile\<close>

datatype crew_scaling = size_only | size_and_complexity

record slope_adjustment =
  flat_low :: rat
  moderate :: rat
  steep :: rat
  very_steep :: rat

record roofer =
  region_zip :: string
  labor_rate :: rat
  daily_productivity :: rat
  base_crew_size :: int
  crew_scaling_rule :: crew_scaling
  slope_cost_adjustment :: slope_adjustment
  material_costs :: "string \<rightharpoonup> rat"
  replacement_costs :: "string \<rightharpoonup> rat"
  overhead_percent :: rat
  profit_margin :: rat

text \<open>The initial values of the onboarding form, for a given ZIP code.\<close>

definition form_data :: "string \<Rightarrow> roofer" where
  "form_data z =
     \<lparr> region_zip = z, labor_rate = 45, daily_productivity = 2500, base_crew_size = 3,
       crew_scaling_rule = size_and_complexity,
       slope_cost_adjustment =
         \<lparr> flat_low = 0, moderate = 1 / 10, steep = 2 / 10, very_steep = 3 / 10 \<rparr>,
       material_costs =
         [''asphalt'' \<mapsto> 4, ''shingle'' \<mapsto> 9 / 2, ''metal'' \<mapsto> 7, ''tile'' \<mapsto> 8,
          ''concrete'' \<mapsto> 6],
       replacement_costs =
         [''asphalt'' \<mapsto> 45, ''shingle'' \<mapsto> 50, ''metal'' \<mapsto> 90, ''tile'' \<mapsto> 70,
          ''concrete'' \<mapsto> 60],
       overhead_percent = 1 / 10, profit_margin = 2 / 10 \<rparr>"

subsection \<open>The region multiplier\<close>

definition region_multiplier_from :: "string list \<Rightarrow> string list \<Rightarrow> string \<Rightarrow> rat" where
  "region_multiplier_from high_cost_zips low_cost_zips zip_code =
     (if startswith zip_code high_cost_zips then 5 / 4
      else if startswith zip_code low_cost_zips then 17 / 20
      else 1)"

definition high_cost_zips :: "string list" where
  "high_cost_zips = [''100'', ''90'', ''94'', ''11'']"

definition low_cost_zips :: "string list" where
  "low_cost_zips = [''83'', ''59'', ''35'', ''73'']"

definition get_region_multiplier :: "string \<Rightarrow> rat" where
  "get_region_multiplier zip_code = region_multiplier_from high_cost_zips low_cost_zips zip_code"

subsection \<open>The steps of \<^verbatim>\<open>calculate_quote\<close>\<close>

text \<open>Step 1: the local variables read from the row and the profile. A variable holds
  whatever the row holds; only the material is used at once, by \<^verbatim>\<open>.lower()\<close>.\<close>

record key_data =
  area :: pyval
  pitch :: pyval
  height :: pyval
  material :: string
  condition :: pyval
  region :: string

definition extract_key_data :: "row \<Rightarrow> roofer \<Rightarrow> py_error + key_data" where
  "extract_key_data row r =
     py_bind (py_lower (dict_get row ''roof_material'' (PStr ''asphalt''))) (\<lambda>mat.
       Inr \<lparr> area = dict_get row ''roof_area'' (PNum 2500),
             pitch = dict_get row ''pitch'' (PNum 15),
             height = dict_get row ''height_ft'' (PNum 15),
             material = mat,
             condition = dict_get row ''roof_condition_summary_score'' (PNum 80),
             region = region_zip r \<rparr>)"

text \<open>Step 3. In \<^verbatim>\<open>pitch > 30 or height > 25\<close> the height is compared only when the
  pitch is not above 30.\<close>

definition dynamic_crew_size :: "int \<Rightarrow> pyval \<Rightarrow> pyval \<Rightarrow> pyval \<Rightarrow> py_error + int" where
  "dynamic_crew_size base area_v pitch_v height_v =
     py_bind (as_num area_v) (\<lambda>a.
       let c0 = base;
           c1 = (if a > 3000 then c0 + 1 else c0);
           c2 = (if a > 5000 then c1 + 1 else c1)
       in py_bind (as_num pitch_v) (\<lambda>p.
            if p > 30 then Inr (c2 + 1)
            else py_bind (as_num height_v) (\<lambda>h. Inr (if h > 25 then c2 + 1 else c2))))"

text \<open>Step 5.\<close>

definition slope_factor_of :: "slope_adjustment \<Rightarrow> rat \<Rightarrow> rat" where
  "slope_factor_of adj slope =
     (if slope \<le> 15 then flat_low adj
      else if slope \<le> 30 then moderate adj
      else if slope \<le> 45 then steep adj
      else very_steep adj)"

text \<open>Step 6: the loop over the three repair columns, with the running total.\<close>

definition repair_fields :: "string list" where
  "repair_fields =
     [''shingle repair area (sqm)'', ''tile repair area (sqm)'', ''metal repair area (sqm)'']"

fun repair_loop :: "row \<Rightarrow> roofer \<Rightarrow> string list \<Rightarrow> rat \<Rightarrow> py_error + rat" where
  "repair_loop row r [] acc = Inr acc"
| "repair_loop row r (f # fs) acc =
     (case row f of
        None \<Rightarrow> repair_loop row r fs acc
      | Some v \<Rightarrow>
          py_bind (as_num v) (\<lambda>x.
            if x > 0 then
              py_bind (py_first (py_split f)) (\<lambda>mat.
                let rate = dict_get (replacement_costs r) mat 50
                in repair_loop row r fs (acc + x * rate))
            else repair_loop row r fs acc))"

text \<open>The local variables of \<^verbatim>\<open>calculate_quote\<close> when it reaches its
  \<^verbatim>\<open>return\<close>; \<open>labor_base\<close> is \<^verbatim>\<open>labor_cost\<close> before the slope adjustment.\<close>

record quote_locals = key_data +
  material_cost :: rat
  crew_size :: int
  hours :: rat
  labor_base :: rat
  slope_factor :: rat
  labor_cost :: rat
  repair_cost :: rat
  regional_multiplier :: rat
  subtotal :: rat
  overhead :: rat
  profit :: rat
  total_amt :: rat

definition calculate_quote_locals :: "row \<Rightarrow> roofer \<Rightarrow> py_error + quote_locals" where
  "calculate_quote_locals row r =
     py_bind (extract_key_data row r) (\<lambda>k.
     py_bind (as_num (area k)) (\<lambda>a.
       let mc = a * dict_get (material_costs r) (material k) 5
       in py_bind (dynamic_crew_size (base_crew_size r) (area k) (pitch k) (height k)) (\<lambda>crew.
          py_bind (py_div a (daily_productivity r)) (\<lambda>days.
            let hrs = days * 8;
                lb = hrs * labor_rate r * of_int crew
            in py_bind (as_num (pitch k)) (\<lambda>slope.
                 let sf = slope_factor_of (slope_cost_adjustment r) slope;
                     lc = lb * (1 + sf)
                 in py_bind (repair_loop row r repair_fields 0) (\<lambda>rc.
                      let rm = get_region_multiplier (region k);
                          sub = (mc + lc + rc) * rm;
                          ov = sub * overhead_percent r;
                          pr = (sub + ov) * profit_margin r;
                          tot = sub + ov + pr
                      in Inr \<lparr> area = area k, pitch = pitch k, height = height k,
                               material = material k, condition = condition k,
                               region = region k, material_cost = mc, crew_size = crew,
                               hours = hrs, labor_base = lb, slope_factor = sf,
                               labor_cost = lc, repair_cost = rc, regional_multiplier = rm,
                               subtotal = sub, overhead = ov, profit = pr,
                               total_amt = tot \<rparr>))))))"

text \<open>Step 9: the value returned. The products and the rounding are exact here; the program
  computes them in binary floating point, which can give the neighbouring cent.\<close>

definition quote_range :: "rat \<Rightarrow> rat \<times> rat" where
  "quote_range tot = (py_round (tot * (9 / 10)) 2, py_round (tot * (23 / 20)) 2)"

definition calculate_quote :: "row \<Rightarrow> roofer \<Rightarrow> py_error + rat \<times> rat" where
  "calculate_quote row r =
     py_bind (calculate_quote_locals row r) (\<lambda>b. Inr (quote_range (total_amt b)))"

text \<open>The record of the end-to-end example.\<close>

definition example_row :: row where
  "example_row =
     [''roof_area'' \<mapsto> PNum 2500, ''pitch'' \<mapsto> PNum (2443 / 100), ''height_ft'' \<mapsto> PNum 15,
      ''roof_material'' \<mapsto> PStr ''concrete'', ''roof_condition_summary_score'' \<mapsto> PNum 80]"

text \<open>A large, steep and tall roof: every crew threshold is crossed.\<close>

definition large_steep_row :: row where
  "large_steep_row =
     [''roof_area'' \<mapsto> PNum 6000, ''pitch'' \<mapsto> PNum 35, ''height_ft'' \<mapsto> PNum 30]"

text \<open>The repair cost as the specification words it: one item for each of the three
  columns, named by its material; an absent column and an area that is not above zero add
  nothing.\<close>

definition repair_item :: "row \<Rightarrow> roofer \<Rightarrow> string \<Rightarrow> string \<Rightarrow> rat" where
  "repair_item row r field mat =
     (case row field of
        Some (PNum x) \<Rightarrow> if x > 0 then x * dict_get (replacement_costs r) mat 50 else 0
      | _ \<Rightarrow> 0)"

definition repair_cost_spec :: "row \<Rightarrow> roofer \<Rightarrow> rat" where
  "repair_cost_spec row r =
     repair_item row r ''shingle repair area (sqm)'' ''shingle'' +
     repair_item row r ''tile repair area (sqm)'' ''tile'' +
     repair_item row r ''metal repair area (sqm)'' ''metal''"

text \<open>The columns that \<^verbatim>\<open>calculate_quote\<close> reads.\<close>

definition read_fields :: "string list" where
  "read_fields =
     [''roof_area'', ''pitch'', ''height_ft'', ''roof_material'',
      ''roof_condition_summary_score''] @ repair_fields"

text \<open>The example record with repair areas.\<close>

definition repair_row :: row where
  "repair_row =
     example_row(''shingle repair area (sqm)'' \<mapsto> PNum 10, ''tile repair area (sqm)'' \<mapsto> PNum 0,
       ''metal repair area (sqm)'' \<mapsto> PNum 2)"

text \<open>The upper-case letters among the code points below 256.\<close>

definition upper_char :: "char \<Rightarrow> bool" where
  "upper_char c \<longleftrightarrow> c \<in> set ''ABCDEFGHIJKLMNOPQRSTUVWXYZ'' \<or>
     (of_char c :: nat) \<in> {192..214} \<union> {216..222}"

text \<open>The ZIP code test of the landing page form, \<^verbatim>\<open>/^\d{5}$/\<close> in
  \<^verbatim>\<open>handleBuyNow\<close>.\<close>

definition is_digit :: "char \<Rightarrow> bool" where
  "is_digit c = (let n = (of_char c :: nat) in 48 \<le> n \<and> n \<le> 57)"

definition zip_regex_test :: "string \<Rightarrow> bool" where
  "zip_regex_test s = (length s = 5 \<and> list_all is_digit s)"

text \<open>The crew size as the specification words it: the base crew, one more for an area
  above 3000, one more for an area above 5000, and one more, once, for a pitch above 30 or a
  height above 25.\<close>

definition crew_size_spec :: "int \<Rightarrow> rat \<Rightarrow> rat \<Rightarrow> rat \<Rightarrow> int" where
  "crew_size_spec base a p h =
     base + (if 3000 < a then 1 else 0) + (if 5000 < a then 1 else 0) +
       (if 30 < p \<or> 25 < h then 1 else 0)"

text \<open>A normalized record: each of area, pitch and height is absent or a number, the
  material is absent or a string, and each repair column is absent or a number. The number
  of a column is its value, or the default when the column is absent.\<close>

definition opt_num :: "pyval option \<Rightarrow> bool" where
  "opt_num v = (case v of None \<Rightarrow> True | Some (PNum _) \<Rightarrow> True | Some _ \<Rightarrow> False)"

definition opt_str :: "pyval option \<Rightarrow> bool" where
  "opt_str v = (case v of None \<Rightarrow> True | Some (PStr _) \<Rightarrow> True | Some _ \<Rightarrow> False)"

definition normalized_row :: "row \<Rightarrow> bool" where
  "normalized_row row \<longleftrightarrow>
     opt_num (row ''roof_area'') \<and> opt_num (row ''pitch'') \<and> opt_num (row ''height_ft'') \<and>
     opt_str (row ''roof_material'') \<and> list_all (\<lambda>f. opt_num (row f)) repair_fields"

definition num_field :: "row \<Rightarrow> string \<Rightarrow> rat \<Rightarrow> rat" where
  "num_field row k d = (case row k of Some (PNum x) \<Rightarrow> x | _ \<Rightarrow> d)"

text \<open>Records that cross one crew threshold each, and a record with an upper-case
  material.\<close>

definition wide_row :: row where
  "wide_row = [''roof_area'' \<mapsto> PNum 3500]"

definition tall_row :: row where
  "tall_row = [''height_ft'' \<mapsto> PNum 30]"

definition very_steep_row :: row where
  "very_steep_row = [''pitch'' \<mapsto> PNum 50, ''height_ft'' \<mapsto> PNum 40]"

definition upper_case_row :: row where
  "upper_case_row = [''roof_material'' \<mapsto> PStr ''MeTaL'']"

subsection \<open>The batch processor\<close>

text \<open>Modelled from the spec: the batch processor \<^verbatim>\<open>run_batch(profile, raw_records)\<close>,
  whose code is not part of the sources. It processes the records in input order. A record
  fails when its identifying address is missing or when the calculation raises; the failure
  is caught and appended to the errors with the record's index, and processing continues
  with the next record. The result of a record that succeeds is appended to the results.\<close>

datatype record_error = MissingAddress | ValidationError py_error

definition quote_record :: "roofer \<Rightarrow> row \<Rightarrow> record_error + pyval \<times> quote_locals" where
  "quote_record r row =
     (case row ''address'' of
        None \<Rightarrow> Inl MissingAddress
      | Some addr \<Rightarrow>
          (case calculate_quote_locals row r of
             Inl e \<Rightarrow> Inl (ValidationError e)
           | Inr b \<Rightarrow> Inr (addr, b)))"

fun batch_loop ::
  "('r \<Rightarrow> 'e + 'q) \<Rightarrow> nat \<Rightarrow> 'r list \<Rightarrow> 'q list \<Rightarrow> (nat \<times> 'e) list \<Rightarrow> 'q list \<times> (nat \<times> 'e) list"
where
  "batch_loop f i [] results errors = (results, errors)"
| "batch_loop f i (x # xs) results errors =
     (case f x of
        Inr q \<Rightarrow> batch_loop f (Suc i) xs (results @ [q]) errors
      | Inl e \<Rightarrow> batch_loop f (Suc i) xs results (errors @ [(i, e)]))"

definition run_batch ::
  "roofer \<Rightarrow> row list \<Rightarrow> (pyval \<times> quote_locals) list \<times> (nat \<times> record_error) list" where
  "run_batch r rows = batch_loop (quote_record r) 0 rows [] []"

text \<open>A batch of three records, the second with a malformed area.\<close>

definition batch_rows :: "row list" where
  "batch_rows =
     [example_row(''address'' \<mapsto> PStr ''1 First Street''),
      example_row(''address'' \<mapsto> PStr ''2 Second Street'', ''roof_area'' \<mapsto> PStr ''n/a''),
      large_steep_row(''address'' \<mapsto> PStr ''3 Third Street'')]"

section \<open>Properties\<close>

lemmas engine_defs =
  calculate_quote_def calculate_quote_locals_def extract_key_data_def py_bind_def dict_get_def
  py_lower_def lower_char_def as_num_def dynamic_crew_size_def py_div_def slope_factor_of_def
  repair_fields_def get_region_multiplier_def region_multiplier_from_def high_cost_zips_def
  low_cost_zips_def startswith_def quote_range_def py_round_def round_half_even_def Let_def

subsection \<open>Exceptions and coercions\<close>

lemma py_bind_Inr [simp]: "py_bind (Inr x) f = f x"
  by (simp add: py_bind_def)

lemma py_bind_Inl [simp]: "py_bind (Inl e) f = Inl e"
  by (simp add: py_bind_def)

lemma py_bind_eq_Inr: "py_bind m f = Inr y \<longleftrightarrow> (\<exists>x. m = Inr x \<and> f x = Inr y)"
  by (cases m) simp_all

lemma as_num_PNum [simp]: "as_num (PNum x) = Inr x"
  by (simp add: as_num_def)

lemma as_num_eq_Inr: "as_num v = Inr x \<longleftrightarrow> v = PNum x"
  by (cases v) (simp_all add: as_num_def)

lemma py_div_eq_Inr: "py_div a d = Inr q \<longleftrightarrow> d \<noteq> 0 \<and> q = a / d"
  by (auto simp: py_div_def)

subsection \<open>What a successful run computed\<close>

lemma extract_key_data_fields:
  assumes "extract_key_data row r = Inr k"
  shows "area k = dict_get row ''roof_area'' (PNum 2500)"
    and "pitch k = dict_get row ''pitch'' (PNum 15)"
    and "height k = dict_get row ''height_ft'' (PNum 15)"
    and "condition k = dict_get row ''roof_condition_summary_score'' (PNum 80)"
    and "region k = region_zip r"
    and "py_lower (dict_get row ''roof_material'' (PStr ''asphalt'')) = Inr (material k)"
  using assms by (auto simp: extract_key_data_def py_bind_eq_Inr)

lemma calculate_quote_locals_Inr:
  assumes "calculate_quote_locals row r = Inr b"
  obtains k a p crew rc where
    "extract_key_data row r = Inr k" and "area k = PNum a" and "pitch k = PNum p"
    and "dynamic_crew_size (base_crew_size r) (area k) (pitch k) (height k) = Inr crew"
    and "daily_productivity r \<noteq> 0"
    and "repair_loop row r repair_fields 0 = Inr rc"
    and "area b = area k" and "pitch b = pitch k" and "height b = height k"
    and "material b = material k" and "condition b = condition k" and "region b = region k"
    and "material_cost b = a * dict_get (material_costs r) (material k) 5"
    and "crew_size b = crew"
    and "hours b = a / daily_productivity r * 8"
    and "labor_base b = hours b * labor_rate r * of_int crew"
    and "slope_factor b = slope_factor_of (slope_cost_adjustment r) p"
    and "labor_cost b = labor_base b * (1 + slope_factor b)"
    and "repair_cost b = rc"
    and "regional_multiplier b = get_region_multiplier (region_zip r)"
    and "subtotal b = (material_cost b + labor_cost b + repair_cost b) * regional_multiplier b"
    and "overhead b = subtotal b * overhead_percent r"
    and "profit b = (subtotal b + overhead b) * profit_margin r"
    and "total_amt b = subtotal b + overhead b + profit b"
  using assms
  by (auto simp: calculate_quote_locals_def py_bind_eq_Inr as_num_eq_Inr py_div_eq_Inr Let_def
      extract_key_data_fields)

subsection \<open>The end-to-end example\<close>

text \<open>
  Claim C1. For every profile with a labour rate of 45, a daily productivity of 2500, a
  base crew of 3, 10 percent overhead, 20 percent profit, concrete at 6.0 per unit area, a
  moderate slope surcharge of 0.1 and a ZIP code starting with 100, the example record
  (area 2500, pitch 24.43, height 15, concrete, condition 80, no repair areas) is quoted
  with a crew of 3, material cost 15000, 8 labour hours, base labour 1080, adjusted labour
  1188, no repair cost, region multiplier 1.25, subtotal 20235, overhead 2023.5, profit
  4451.7, total 26710.2 and the range (24039.18, 30716.73).
\<close>

theorem end_to_end_example:
  assumes "labor_rate r = 45" and "daily_productivity r = 2500" and "base_crew_size r = 3"
    and "overhead_percent r = 1 / 10" and "profit_margin r = 2 / 10"
    and "material_costs r ''concrete'' = Some 6"
    and "moderate (slope_cost_adjustment r) = 1 / 10"
    and "prefix ''100'' (region_zip r)"
  shows "\<exists>b. calculate_quote_locals example_row r = Inr b \<and> crew_size b = 3 \<and>
           material_cost b = 15000 \<and> hours b = 8 \<and> labor_base b = 1080 \<and>
           slope_factor b = 1 / 10 \<and> labor_cost b = 1188 \<and> repair_cost b = 0 \<and>
           regional_multiplier b = 5 / 4 \<and> subtotal b = 20235 \<and> overhead b = 20235 / 10 \<and>
           profit b = 44517 / 10 \<and> total_amt b = 267102 / 10 \<and>
           calculate_quote example_row r = Inr (2403918 / 100, 3071673 / 100)"
proof -
  from assms(8) obtain rest where z: "region_zip r = ''100'' @ rest"
    by (auto elim: prefixE)
  show ?thesis
    by (simp add: engine_defs example_row_def assms(1-7) z)
qed

theorem end_to_end_example_witness:
  "\<exists>b. calculate_quote_locals example_row (form_data ''10001'') = Inr b \<and> crew_size b = 3 \<and>
       material_cost b = 15000 \<and> hours b = 8 \<and> labor_base b = 1080 \<and>
       slope_factor b = 1 / 10 \<and> labor_cost b = 1188 \<and> repair_cost b = 0 \<and>
       regional_multiplier b = 5 / 4 \<and> subtotal b = 20235 \<and> overhead b = 20235 / 10 \<and>
       profit b = 44517 / 10 \<and> total_amt b = 267102 / 10 \<and>
       calculate_quote example_row (form_data ''10001'') = Inr (2403918 / 100, 3071673 / 100)"
  by (rule end_to_end_example) (simp_all add: form_data_def)

subsection \<open>The crew scaling rule\<close>

lemma repair_loop_crew_scaling_rule:
  "repair_loop row (r\<lparr>crew_scaling_rule := c\<rparr>) fs acc = repair_loop row r fs acc"
  by (induction fs arbitrary: acc) (simp_all add: py_bind_def split: option.splits sum.splits)

text \<open>
  Claim C9. The computation never reads \<open>crew_scaling_rule\<close>: with \<open>size_only\<close> and with
  \<open>size_and_complexity\<close> the local variables, the errors and the returned range are the
  same.
\<close>

theorem crew_scaling_rule_unused:
  "calculate_quote_locals row (r\<lparr>crew_scaling_rule := size_only\<rparr>) =
     calculate_quote_locals row (r\<lparr>crew_scaling_rule := size_and_complexity\<rparr>) \<and>
   calculate_quote row (r\<lparr>crew_scaling_rule := size_only\<rparr>) =
     calculate_quote row (r\<lparr>crew_scaling_rule := size_and_complexity\<rparr>)"
proof -
  have "calculate_quote_locals row (r\<lparr>crew_scaling_rule := c\<rparr>) = calculate_quote_locals row r"
    for c
    by (simp add: calculate_quote_locals_def extract_key_data_def repair_loop_crew_scaling_rule)
  then show ?thesis
    by (simp add: calculate_quote_def)
qed

subsection \<open>The repair cost\<close>

lemma repair_field_materials:
  "py_first (py_split ''shingle repair area (sqm)'') = Inr ''shingle''"
  "py_first (py_split ''tile repair area (sqm)'') = Inr ''tile''"
  "py_first (py_split ''metal repair area (sqm)'') = Inr ''metal''"
  by (simp_all add: py_split_def is_space_def py_first_def)

lemma py_bind_cong:
  "m = m' \<Longrightarrow> (\<And>x. m' = Inr x \<Longrightarrow> f x = g x) \<Longrightarrow> py_bind m f = py_bind m' g"
  by (cases m') simp_all

lemma repair_loop_upd_other:
  "f \<notin> set fs \<Longrightarrow> repair_loop (row(f := v)) r fs acc = repair_loop row r fs acc"
proof (induction fs arbitrary: acc)
  case Nil
  show ?case by simp
next
  case (Cons a fs)
  have IH: "repair_loop (row(f := v)) r fs acc' = repair_loop row r fs acc'" for acc'
    using Cons.prems by (intro Cons.IH) simp
  have upd: "(row(f := v)) a = row a"
    using Cons.prems by auto
  show ?case
    unfolding repair_loop.simps upd IH ..
qed

lemma repair_step_item:
  assumes "row f = None \<or> (\<exists>x. row f = Some (PNum x))" and "py_first (py_split f) = Inr mat"
  shows "repair_loop row r (f # fs) acc = repair_loop row r fs (acc + repair_item row r f mat)"
  using assms by (auto simp: repair_item_def Let_def)

lemma repair_loop_Inr_typed:
  "repair_loop row r fs acc = Inr rc \<Longrightarrow> f \<in> set fs \<Longrightarrow>
   row f = None \<or> (\<exists>x. row f = Some (PNum x))"
  by (induction fs arbitrary: acc)
    (auto simp: py_bind_eq_Inr as_num_eq_Inr split: option.splits if_splits)

lemma repair_loop_fields:
  assumes "\<forall>f\<in>set repair_fields. row f = None \<or> (\<exists>x. row f = Some (PNum x))"
  shows "repair_loop row r repair_fields 0 = Inr (repair_cost_spec row r)"
proof -
  have t: "row ''shingle repair area (sqm)'' = None \<or> (\<exists>x. row ''shingle repair area (sqm)'' = Some (PNum x))"
    "row ''tile repair area (sqm)'' = None \<or> (\<exists>x. row ''tile repair area (sqm)'' = Some (PNum x))"
    "row ''metal repair area (sqm)'' = None \<or> (\<exists>x. row ''metal repair area (sqm)'' = Some (PNum x))"
    using assms by (simp_all add: repair_fields_def)
  show ?thesis
    unfolding repair_fields_def repair_cost_spec_def
    by (simp add: repair_step_item [where mat = "''shingle''"]
        repair_step_item [where mat = "''tile''"] repair_step_item [where mat = "''metal''"]
        t repair_field_materials del: repair_loop.simps(2))
qed

lemma dict_get_upd_other: "k \<noteq> f \<Longrightarrow> dict_get (row(f := v)) k d = dict_get row k d"
  by (simp add: dict_get_def)

lemma calculate_quote_locals_upd_other:
  assumes "f \<notin> set read_fields"
  shows "calculate_quote_locals (row(f := v)) r = calculate_quote_locals row r"
proof -
  from assms have "f \<notin> set repair_fields" and "''roof_area'' \<noteq> f" and "''pitch'' \<noteq> f"
    and "''height_ft'' \<noteq> f" and "''roof_material'' \<noteq> f"
    and "''roof_condition_summary_score'' \<noteq> f"
    by (auto simp: read_fields_def)
  then show ?thesis
    by (simp add: calculate_quote_locals_def extract_key_data_def dict_get_upd_other
        repair_loop_upd_other)
qed

text \<open>
  Claim C7. The repair cost of a run that returns is the sum of the items of the three
  columns for shingle, tile and metal: area times the material's replacement rate (50 when
  the profile has none) for a column that is present with an area above zero, nothing
  otherwise. The loop returns that sum whenever each of the three columns is absent or a
  number. A column that is not one of those the function reads, such as a repair area for
  another material, changes nothing.
\<close>

theorem repair_cost_three_fields:
  "(\<forall>b. calculate_quote_locals row r = Inr b \<longrightarrow> repair_cost b = repair_cost_spec row r) \<and>
   ((\<forall>f\<in>set repair_fields. row f = None \<or> (\<exists>x. row f = Some (PNum x))) \<longrightarrow>
      repair_loop row r repair_fields 0 = Inr (repair_cost_spec row r)) \<and>
   (f \<notin> set read_fields \<longrightarrow>
      calculate_quote_locals (row(f := v)) r = calculate_quote_locals row r \<and>
      calculate_quote (row(f := v)) r = calculate_quote row r)"
proof -
  have "repair_cost b = repair_cost_spec row r" if "calculate_quote_locals row r = Inr b" for b
  proof -
    from that obtain rc where rc: "repair_loop row r repair_fields 0 = Inr rc"
      and b: "repair_cost b = rc"
      by (rule calculate_quote_locals_Inr)
    from rc have "\<forall>f\<in>set repair_fields. row f = None \<or> (\<exists>x. row f = Some (PNum x))"
      by (blast dest: repair_loop_Inr_typed)
    with rc b show ?thesis
      by (simp add: repair_loop_fields)
  qed
  then show ?thesis
    by (simp add: repair_loop_fields calculate_quote_locals_upd_other calculate_quote_def)
qed


theorem repair_cost_three_fields_witness:
  "(\<exists>b. calculate_quote_locals repair_row (form_data ''10001'') = Inr b \<and> repair_cost b = 680) \<and>
   repair_loop repair_row (form_data ''10001'') repair_fields 0 = Inr 680 \<and>
   calculate_quote (repair_row(''asphalt repair area (sqm)'' \<mapsto> PNum 40)) (form_data ''10001'') =
     calculate_quote repair_row (form_data ''10001'')"
proof -
  let ?r = "form_data ''10001''"
  let ?f = "''asphalt repair area (sqm)''"
  note C = repair_cost_three_fields [of repair_row ?r ?f "Some (PNum 40)"]
  have s: "repair_cost_spec repair_row ?r = 680"
    by (simp add: repair_cost_spec_def repair_item_def repair_row_def example_row_def
        form_data_def dict_get_def)
  obtain b where b: "calculate_quote_locals repair_row ?r = Inr b"
    by (simp add: engine_defs repair_row_def example_row_def form_data_def py_split_def
        is_space_def py_first_def)
  have t: "\<forall>f\<in>set repair_fields. repair_row f = None \<or> (\<exists>x. repair_row f = Some (PNum x))"
    by (simp add: repair_fields_def repair_row_def)
  have n: "?f \<notin> set read_fields"
    by (simp add: read_fields_def repair_fields_def)
  from C b have "repair_cost b = 680"
    by (simp add: s)
  moreover from C t have "repair_loop repair_row ?r repair_fields 0 = Inr 680"
    by (simp only: s)
  moreover from C n have "calculate_quote (repair_row(?f \<mapsto> PNum 40)) ?r = calculate_quote repair_row ?r"
    by simp
  ultimately show ?thesis
    using b by simp
qed

subsection \<open>The condition score\<close>

lemma py_bind_assoc: "py_bind (py_bind m f) g = py_bind m (\<lambda>x. py_bind (f x) g)"
  by (cases m) simp_all

lemma map_sum_py_bind: "map_sum id g (py_bind m f) = py_bind m (\<lambda>x. map_sum id g (f x))"
  by (cases m) simp_all

text \<open>
  Claim C10. Changing, adding or removing the condition score of a row changes neither the
  returned range or error, nor any local variable other than \<open>condition\<close> itself.
\<close>

theorem condition_score_unused:
  "calculate_quote (row(''roof_condition_summary_score'' := v)) r = calculate_quote row r \<and>
   map_sum id (condition_update (\<lambda>_. PNone))
     (calculate_quote_locals (row(''roof_condition_summary_score'' := v)) r) =
   map_sum id (condition_update (\<lambda>_. PNone)) (calculate_quote_locals row r)"
proof -
  let ?row = "row(''roof_condition_summary_score'' := v)"
  have 1: "repair_loop ?row r repair_fields 0 = repair_loop row r repair_fields 0"
    by (rule repair_loop_upd_other) (simp add: repair_fields_def)
  have 2: "dict_get ?row ''roof_area'' d = dict_get row ''roof_area'' d"
    "dict_get ?row ''pitch'' d = dict_get row ''pitch'' d"
    "dict_get ?row ''height_ft'' d = dict_get row ''height_ft'' d"
    "dict_get ?row ''roof_material'' d = dict_get row ''roof_material'' d" for d
    by (simp_all add: dict_get_def)
  have 3: "map_sum id (condition_update (\<lambda>_. PNone)) (calculate_quote_locals ?row r) =
      map_sum id (condition_update (\<lambda>_. PNone)) (calculate_quote_locals row r)"
    by (simp add: calculate_quote_locals_def extract_key_data_def 1 2 py_bind_assoc
        map_sum_py_bind Let_def)
  have 4: "calculate_quote row' r =
      py_bind (map_sum id (condition_update (\<lambda>_. PNone)) (calculate_quote_locals row' r))
        (\<lambda>b. Inr (quote_range (total_amt b)))" for row'
    by (cases "calculate_quote_locals row' r") (simp_all add: calculate_quote_def)
  show ?thesis
    using 3 by (simp add: 4)
qed

subsection \<open>Normalized records\<close>

lemma opt_num_iff: "opt_num v \<longleftrightarrow> v = None \<or> (\<exists>x. v = Some (PNum x))"
  by (auto simp: opt_num_def split: option.splits pyval.splits)

lemma opt_str_iff: "opt_str v \<longleftrightarrow> v = None \<or> (\<exists>s. v = Some (PStr s))"
  by (auto simp: opt_str_def split: option.splits pyval.splits)

lemma dict_get_num_field: "opt_num (row k) \<Longrightarrow> dict_get row k (PNum d) = PNum (num_field row k d)"
  by (auto simp: opt_num_iff dict_get_def num_field_def)

lemma dict_get_opt_str: "opt_str (row k) \<Longrightarrow> \<exists>s. dict_get row k (PStr d) = PStr s"
  by (auto simp: opt_str_iff dict_get_def)

lemma dynamic_crew_size_PNum:
  "dynamic_crew_size base (PNum a) (PNum p) (PNum h) = Inr (crew_size_spec base a p h)"
  by (simp add: dynamic_crew_size_def crew_size_spec_def Let_def)

lemma dynamic_crew_size_steep:
  "30 < p \<Longrightarrow> dynamic_crew_size base (PNum a) (PNum p) hv = Inr (crew_size_spec base a p h)"
  by (simp add: dynamic_crew_size_def crew_size_spec_def Let_def)

lemma dynamic_crew_size_ge: "dynamic_crew_size base av pv hv = Inr c \<Longrightarrow> base \<le> c"
  by (auto simp: dynamic_crew_size_def Let_def py_bind_eq_Inr split: if_splits)

lemma calculate_quote_locals_normalized:
  assumes "normalized_row row" and "daily_productivity r \<noteq> 0"
  defines "a \<equiv> num_field row ''roof_area'' 2500"
    and "p \<equiv> num_field row ''pitch'' 15"
    and "h \<equiv> num_field row ''height_ft'' 15"
  shows "\<exists>b. calculate_quote_locals row r = Inr b \<and>
           area b = PNum a \<and> pitch b = PNum p \<and> height b = PNum h \<and>
           crew_size b = crew_size_spec (base_crew_size r) a p h \<and>
           hours b = a / daily_productivity r * 8 \<and>
           slope_factor b = slope_factor_of (slope_cost_adjustment r) p \<and>
           labor_cost b =
             a / daily_productivity r * 8 * labor_rate r *
               of_int (crew_size_spec (base_crew_size r) a p h) *
               (1 + slope_factor_of (slope_cost_adjustment r) p)"
proof -
  from assms(1) have a: "dict_get row ''roof_area'' (PNum 2500) = PNum a"
    and p: "dict_get row ''pitch'' (PNum 15) = PNum p"
    and h: "dict_get row ''height_ft'' (PNum 15) = PNum h"
    unfolding a_def p_def h_def by (simp_all add: normalized_row_def dict_get_num_field)
  from assms(1) obtain s where s: "dict_get row ''roof_material'' (PStr ''asphalt'') = PStr s"
    using dict_get_opt_str [of row "''roof_material''"] by (auto simp: normalized_row_def)
  from assms(1) have "\<forall>f\<in>set repair_fields. row f = None \<or> (\<exists>x. row f = Some (PNum x))"
    by (simp add: normalized_row_def list_all_iff opt_num_iff)
  then have rc: "repair_loop row r repair_fields 0 = Inr (repair_cost_spec row r)"
    by (rule repair_loop_fields)
  have k: "extract_key_data row r =
      Inr \<lparr> area = PNum a, pitch = PNum p, height = PNum h, material = map lower_char s,
            condition = dict_get row ''roof_condition_summary_score'' (PNum 80),
            region = region_zip r \<rparr>"
    by (simp add: extract_key_data_def a p h s py_lower_def)
  show ?thesis
    unfolding calculate_quote_locals_def k
    by (simp add: rc assms(2) dynamic_crew_size_PNum py_div_def Let_def)
qed

subsection \<open>Crew sizing\<close>

text \<open>
  Claim C3. On numbers the crew is the base crew plus one for an area above 3000, plus one
  more for an area above 5000, plus exactly one for a pitch above 30 or a height above 25:
  never less than the base crew, never more than three above it. For every normalized
  record and every profile with a productivity other than zero the calculation returns, with
  that crew for the record's area, pitch and height (or their defaults). In every run that
  returns, the crew is at least the base crew, and it is that of the area, pitch and height
  of the row whenever the height is a number or the pitch is above 30.
\<close>

theorem crew_sizing:
  "dynamic_crew_size base (PNum a) (PNum p) (PNum h) =
     Inr (base + (if 3000 < a then 1 else 0) + (if 5000 < a then 1 else 0) +
            (if 30 < p \<or> 25 < h then 1 else 0)) \<and>
   (normalized_row row \<and> daily_productivity r \<noteq> 0 \<longrightarrow>
      (\<exists>b. calculate_quote_locals row r = Inr b \<and>
           crew_size b =
             crew_size_spec (base_crew_size r) (num_field row ''roof_area'' 2500)
               (num_field row ''pitch'' 15) (num_field row ''height_ft'' 15))) \<and>
   (\<forall>b. calculate_quote_locals row r = Inr b \<longrightarrow>
      base_crew_size r \<le> crew_size b \<and>
      (\<exists>a' p'. dict_get row ''roof_area'' (PNum 2500) = PNum a' \<and>
              dict_get row ''pitch'' (PNum 15) = PNum p' \<and>
              (\<forall>h'. dict_get row ''height_ft'' (PNum 15) = PNum h' \<or> 30 < p' \<longrightarrow>
                 crew_size b = crew_size_spec (base_crew_size r) a' p' h'))) \<and>
   crew_size_spec base a p h =
     base + (if 3000 < a then 1 else 0) + (if 5000 < a then 1 else 0) +
       (if 30 < p \<or> 25 < h then 1 else 0) \<and>
   base \<le> crew_size_spec base a p h \<and> crew_size_spec base a p h \<le> base + 3"
proof -
  have 1: "dynamic_crew_size base (PNum a) (PNum p) (PNum h) =
     Inr (base + (if 3000 < a then 1 else 0) + (if 5000 < a then 1 else 0) +
            (if 30 < p \<or> 25 < h then 1 else 0))"
    by (simp add: dynamic_crew_size_PNum crew_size_spec_def)
  have 2: "\<exists>b. calculate_quote_locals row r = Inr b \<and>
           crew_size b =
             crew_size_spec (base_crew_size r) (num_field row ''roof_area'' 2500)
               (num_field row ''pitch'' 15) (num_field row ''height_ft'' 15)"
    if "normalized_row row" and "daily_productivity r \<noteq> 0"
    using calculate_quote_locals_normalized [OF that] by blast
  have 3: "base_crew_size r \<le> crew_size b \<and>
      (\<exists>a' p'. dict_get row ''roof_area'' (PNum 2500) = PNum a' \<and>
              dict_get row ''pitch'' (PNum 15) = PNum p' \<and>
              (\<forall>h'. dict_get row ''height_ft'' (PNum 15) = PNum h' \<or> 30 < p' \<longrightarrow>
                 crew_size b = crew_size_spec (base_crew_size r) a' p' h'))"
    if "calculate_quote_locals row r = Inr b" for b
  proof -
    from that obtain k a' p' crew where k: "extract_key_data row r = Inr k"
      and a: "area k = PNum a'" and p: "pitch k = PNum p'"
      and crew: "dynamic_crew_size (base_crew_size r) (area k) (pitch k) (height k) = Inr crew"
      and b: "crew_size b = crew"
      by (rule calculate_quote_locals_Inr)
    note f = extract_key_data_fields(1-3) [OF k]
    have "crew_size b = crew_size_spec (base_crew_size r) a' p' h'"
      if "dict_get row ''height_ft'' (PNum 15) = PNum h' \<or> 30 < p'" for h'
      using that
    proof
      assume "dict_get row ''height_ft'' (PNum 15) = PNum h'"
      with crew a p b f show ?thesis
        by (simp add: dynamic_crew_size_PNum)
    next
      assume "30 < p'"
      from dynamic_crew_size_steep [OF this, of "base_crew_size r" a' "height k" h'] crew a p b
      show ?thesis
        by simp
    qed
    moreover have "base_crew_size r \<le> crew_size b"
      using crew b by (simp add: dynamic_crew_size_ge)
    ultimately show ?thesis
      using a p f by auto
  qed
  have 4: "crew_size_spec base a p h =
     base + (if 3000 < a then 1 else 0) + (if 5000 < a then 1 else 0) +
       (if 30 < p \<or> 25 < h then 1 else 0) \<and>
     base \<le> crew_size_spec base a p h \<and> crew_size_spec base a p h \<le> base + 3"
    by (simp add: crew_size_spec_def)
  from 1 2 3 4 show ?thesis
    by blast
qed

theorem crew_sizing_witness:
  "normalized_row example_row \<and> normalized_row wide_row \<and> normalized_row large_steep_row \<and>
   normalized_row tall_row \<and> normalized_row very_steep_row \<and>
   (\<exists>b. calculate_quote_locals example_row (form_data ''10001'') = Inr b \<and> crew_size b = 3) \<and>
   (\<exists>b. calculate_quote_locals wide_row (form_data ''10001'') = Inr b \<and> crew_size b = 4) \<and>
   (\<exists>b. calculate_quote_locals large_steep_row (form_data ''10001'') = Inr b \<and> crew_size b = 6) \<and>
   (\<exists>b. calculate_quote_locals tall_row (form_data ''10001'') = Inr b \<and> crew_size b = 4) \<and>
   (\<exists>b. calculate_quote_locals very_steep_row (form_data ''10001'') = Inr b \<and> crew_size b = 4 \<and>
        base_crew_size (form_data ''10001'') \<le> crew_size b)"
proof -
  let ?r = "form_data ''10001''"
  have r: "daily_productivity ?r \<noteq> 0" "base_crew_size ?r = 3"
    by (simp_all add: form_data_def)
  have n: "normalized_row example_row" "normalized_row wide_row" "normalized_row large_steep_row"
    "normalized_row tall_row" "normalized_row very_steep_row"
    by (simp_all add: normalized_row_def opt_num_def opt_str_def repair_fields_def
        example_row_def wide_row_def large_steep_row_def tall_row_def very_steep_row_def)
  have w: "\<exists>b. calculate_quote_locals row ?r = Inr b \<and>
      crew_size b =
        crew_size_spec 3 (num_field row ''roof_area'' 2500) (num_field row ''pitch'' 15)
          (num_field row ''height_ft'' 15)" if "normalized_row row" for row
    using crew_sizing [of 0 0 0 0 row ?r] that r by simp
  have 1: "\<exists>b. calculate_quote_locals example_row ?r = Inr b \<and> crew_size b = 3"
    using w [OF n(1)] by (simp add: crew_size_spec_def num_field_def example_row_def)
  have 2: "\<exists>b. calculate_quote_locals wide_row ?r = Inr b \<and> crew_size b = 4"
    using w [OF n(2)] by (simp add: crew_size_spec_def num_field_def wide_row_def)
  have 3: "\<exists>b. calculate_quote_locals large_steep_row ?r = Inr b \<and> crew_size b = 6"
    using w [OF n(3)] by (simp add: crew_size_spec_def num_field_def large_steep_row_def)
  have 4: "\<exists>b. calculate_quote_locals tall_row ?r = Inr b \<and> crew_size b = 4"
    using w [OF n(4)] by (simp add: crew_size_spec_def num_field_def tall_row_def)
  from w [OF n(5)] obtain b where b: "calculate_quote_locals very_steep_row ?r = Inr b"
    and c: "crew_size b = 4"
    by (auto simp: crew_size_spec_def num_field_def very_steep_row_def)
  from crew_sizing [of 0 0 0 0 very_steep_row ?r] b have "base_crew_size ?r \<le> crew_size b"
    by blast
  with b c have 5: "\<exists>b. calculate_quote_locals very_steep_row ?r = Inr b \<and> crew_size b = 4 \<and>
      base_crew_size ?r \<le> crew_size b"
    by blast
  from n 1 2 3 4 5 show ?thesis
    by blast
qed

subsection \<open>The slope surcharge\<close>

text \<open>
  Claim C4. The surcharge is \<open>flat_low\<close> for a pitch of at most 15, \<open>moderate\<close> above 15
  and up to 30, \<open>steep\<close> above 30 and up to 45, \<open>very_steep\<close> above 45; so 15 is flat,
  15.01 moderate, 45 steep and 45.01 very steep. For every normalized record and every
  profile with a productivity other than zero the calculation returns, and its labour cost
  is hours times rate times crew, multiplied by one plus the surcharge of the record's own
  pitch (or of the default 15). In every run that returns, the pitch is the row's, and the
  labour cost is the base labour cost times one plus the surcharge of that pitch.
\<close>

theorem slope_buckets:
  "(p \<le> 15 \<longrightarrow> slope_factor_of adj p = flat_low adj) \<and>
   (15 < p \<and> p \<le> 30 \<longrightarrow> slope_factor_of adj p = moderate adj) \<and>
   (30 < p \<and> p \<le> 45 \<longrightarrow> slope_factor_of adj p = steep adj) \<and>
   (45 < p \<longrightarrow> slope_factor_of adj p = very_steep adj) \<and>
   slope_factor_of adj 15 = flat_low adj \<and>
   slope_factor_of adj (1501 / 100) = moderate adj \<and>
   slope_factor_of adj 45 = steep adj \<and>
   slope_factor_of adj (4501 / 100) = very_steep adj \<and>
   (normalized_row row \<and> daily_productivity r \<noteq> 0 \<longrightarrow>
      (\<exists>b. calculate_quote_locals row r = Inr b \<and>
           pitch b = PNum (num_field row ''pitch'' 15) \<and>
           slope_factor b =
             slope_factor_of (slope_cost_adjustment r) (num_field row ''pitch'' 15) \<and>
           labor_cost b =
             num_field row ''roof_area'' 2500 / daily_productivity r * 8 * labor_rate r *
               of_int (crew_size_spec (base_crew_size r) (num_field row ''roof_area'' 2500)
                 (num_field row ''pitch'' 15) (num_field row ''height_ft'' 15)) *
               (1 + slope_factor_of (slope_cost_adjustment r) (num_field row ''pitch'' 15)))) \<and>
   (\<forall>b. calculate_quote_locals row r = Inr b \<longrightarrow>
      (\<exists>a q. dict_get row ''roof_area'' (PNum 2500) = PNum a \<and>
            dict_get row ''pitch'' (PNum 15) = PNum q \<and> pitch b = PNum q \<and>
            slope_factor b = slope_factor_of (slope_cost_adjustment r) q \<and>
            hours b = a / daily_productivity r * 8 \<and>
            labor_base b = hours b * labor_rate r * of_int (crew_size b) \<and>
            labor_cost b = labor_base b * (1 + slope_factor_of (slope_cost_adjustment r) q)))"
proof -
  have 1: "\<exists>b. calculate_quote_locals row r = Inr b \<and>
           pitch b = PNum (num_field row ''pitch'' 15) \<and>
           slope_factor b =
             slope_factor_of (slope_cost_adjustment r) (num_field row ''pitch'' 15) \<and>
           labor_cost b =
             num_field row ''roof_area'' 2500 / daily_productivity r * 8 * labor_rate r *
               of_int (crew_size_spec (base_crew_size r) (num_field row ''roof_area'' 2500)
                 (num_field row ''pitch'' 15) (num_field row ''height_ft'' 15)) *
               (1 + slope_factor_of (slope_cost_adjustment r) (num_field row ''pitch'' 15))"
    if "normalized_row row" and "daily_productivity r \<noteq> 0"
    using calculate_quote_locals_normalized [OF that] by blast
  have 2: "\<exists>a q. dict_get row ''roof_area'' (PNum 2500) = PNum a \<and>
            dict_get row ''pitch'' (PNum 15) = PNum q \<and> pitch b = PNum q \<and>
            slope_factor b = slope_factor_of (slope_cost_adjustment r) q \<and>
            hours b = a / daily_productivity r * 8 \<and>
            labor_base b = hours b * labor_rate r * of_int (crew_size b) \<and>
            labor_cost b = labor_base b * (1 + slope_factor_of (slope_cost_adjustment r) q)"
    if "calculate_quote_locals row r = Inr b" for b
  proof -
    from that obtain k a q where k: "extract_key_data row r = Inr k"
      and a: "area k = PNum a" and q: "pitch k = PNum q"
      and b: "pitch b = pitch k" "hours b = a / daily_productivity r * 8"
        "labor_base b = hours b * labor_rate r * of_int (crew_size b)"
        "slope_factor b = slope_factor_of (slope_cost_adjustment r) q"
        "labor_cost b = labor_base b * (1 + slope_factor b)"
      by (rule calculate_quote_locals_Inr) simp
    from a q extract_key_data_fields(1,2) [OF k]
    have ra: "dict_get row ''roof_area'' (PNum 2500) = PNum a"
      and rq: "dict_get row ''pitch'' (PNum 15) = PNum q"
      by simp_all
    from b(1) q have pb: "pitch b = PNum q"
      by simp
    from b(4,5) have lc: "labor_cost b =
        labor_base b * (1 + slope_factor_of (slope_cost_adjustment r) q)"
      by simp
    from ra rq pb b(2-4) lc show ?thesis
      by blast
  qed
  from 1 2 show ?thesis
    by (simp add: slope_factor_of_def)
qed

theorem slope_buckets_witness:
  "slope_factor_of (slope_cost_adjustment (form_data ''10001'')) 10 = 0 \<and>
   slope_factor_of (slope_cost_adjustment (form_data ''10001'')) 20 = 1 / 10 \<and>
   slope_factor_of (slope_cost_adjustment (form_data ''10001'')) 40 = 2 / 10 \<and>
   slope_factor_of (slope_cost_adjustment (form_data ''10001'')) 50 = 3 / 10 \<and>
   normalized_row example_row \<and> normalized_row very_steep_row \<and>
   (\<exists>b. calculate_quote_locals example_row (form_data ''10001'') = Inr b \<and>
        pitch b = PNum (2443 / 100) \<and> slope_factor b = 1 / 10 \<and>
        labor_cost b = 8 * 45 * 3 * (1 + 1 / 10)) \<and>
   (\<exists>b. calculate_quote_locals very_steep_row (form_data ''10001'') = Inr b \<and>
        pitch b = PNum 50 \<and> slope_factor b = 3 / 10 \<and>
        labor_cost b = 8 * 45 * 4 * (1 + 3 / 10))"
proof -
  let ?r = "form_data ''10001''"
  let ?adj = "slope_cost_adjustment ?r"
  have r: "daily_productivity ?r \<noteq> 0"
    by (simp add: form_data_def)
  have n: "normalized_row example_row" "normalized_row very_steep_row"
    by (simp_all add: normalized_row_def opt_num_def opt_str_def repair_fields_def
        example_row_def very_steep_row_def)
  have v: "slope_factor_of ?adj 10 = 0" "slope_factor_of ?adj 20 = 1 / 10"
    "slope_factor_of ?adj 40 = 2 / 10" "slope_factor_of ?adj 50 = 3 / 10"
    using slope_buckets [of 10 ?adj] slope_buckets [of 20 ?adj] slope_buckets [of 40 ?adj]
      slope_buckets [of 50 ?adj]
    by (simp_all add: form_data_def)
  have w: "\<exists>b. calculate_quote_locals row ?r = Inr b \<and>
      pitch b = PNum (num_field row ''pitch'' 15) \<and>
      slope_factor b = slope_factor_of ?adj (num_field row ''pitch'' 15) \<and>
      labor_cost b =
        num_field row ''roof_area'' 2500 / daily_productivity ?r * 8 * labor_rate ?r *
          of_int (crew_size_spec (base_crew_size ?r) (num_field row ''roof_area'' 2500)
            (num_field row ''pitch'' 15) (num_field row ''height_ft'' 15)) *
          (1 + slope_factor_of ?adj (num_field row ''pitch'' 15))"
    if "normalized_row row" for row
    using slope_buckets [of 0 ?adj row ?r] that r by blast
  have 1: "\<exists>b. calculate_quote_locals example_row ?r = Inr b \<and>
        pitch b = PNum (2443 / 100) \<and> slope_factor b = 1 / 10 \<and>
        labor_cost b = 8 * 45 * 3 * (1 + 1 / 10)"
    using w [OF n(1)]
    by (simp add: num_field_def example_row_def crew_size_spec_def slope_factor_of_def
        form_data_def)
  have 2: "\<exists>b. calculate_quote_locals very_steep_row ?r = Inr b \<and>
        pitch b = PNum 50 \<and> slope_factor b = 3 / 10 \<and>
        labor_cost b = 8 * 45 * 4 * (1 + 3 / 10)"
    using w [OF n(2)]
    by (simp add: num_field_def very_steep_row_def crew_size_spec_def slope_factor_of_def
        form_data_def)
  from v n 1 2 show ?thesis
    by blast
qed

subsection \<open>Extraction of the key data\<close>

lemma upper_alphabet: "map char_of [65..<91 :: nat] = ''ABCDEFGHIJKLMNOPQRSTUVWXYZ''"
  by code_simp

lemma lower_alphabet:
  "map lower_char ''ABCDEFGHIJKLMNOPQRSTUVWXYZ'' = ''abcdefghijklmnopqrstuvwxyz''"
  by code_simp

lemma ascii_upper_iff:
  "c \<in> set ''ABCDEFGHIJKLMNOPQRSTUVWXYZ'' \<longleftrightarrow> 65 \<le> (of_char c :: nat) \<and> (of_char c :: nat) \<le> 90"
proof
  assume "c \<in> set ''ABCDEFGHIJKLMNOPQRSTUVWXYZ''"
  then show "65 \<le> (of_char c :: nat) \<and> (of_char c :: nat) \<le> 90"
    by auto
next
  assume "65 \<le> (of_char c :: nat) \<and> (of_char c :: nat) \<le> 90"
  then have "(of_char c :: nat) \<in> {65..<91}"
    by auto
  then have "of_char c \<in> set [65..<91 :: nat]"
    by (simp only: set_upt)
  then have "char_of (of_char c :: nat) \<in> set (map char_of [65..<91 :: nat])"
    unfolding set_map by (rule imageI)
  then show "c \<in> set ''ABCDEFGHIJKLMNOPQRSTUVWXYZ''"
    unfolding upper_alphabet by simp
qed

lemma upper_char_iff:
  "upper_char c \<longleftrightarrow>
     (65 \<le> (of_char c :: nat) \<and> (of_char c :: nat) \<le> 90) \<or>
     (192 \<le> (of_char c :: nat) \<and> (of_char c :: nat) \<le> 222 \<and> (of_char c :: nat) \<noteq> 215)"
  unfolding upper_char_def ascii_upper_iff by auto

lemma lower_char_upper: "upper_char c \<Longrightarrow> (of_char (lower_char c) :: nat) = of_char c + 32"
  by (auto simp: upper_char_iff lower_char_def Let_def)

lemma lower_char_other: "\<not> upper_char c \<Longrightarrow> lower_char c = c"
  by (auto simp: upper_char_iff lower_char_def Let_def)

lemma lower_char_not_upper: "\<not> upper_char (lower_char c)"
proof (cases "upper_char c")
  case True
  from lower_char_upper [OF this] True show ?thesis
    by (auto simp: upper_char_iff)
next
  case False
  then show ?thesis
    by (simp add: lower_char_other)
qed

text \<open>
  Claim C8, as stated, fails: a material that is present but null makes the extraction
  raise, and an area that is present but null is kept as null and makes the calculation
  raise.
\<close>

theorem normalization_null_counterexample:
  "extract_key_data [''roof_material'' \<mapsto> PNone] (form_data ''10001'') = Inl AttributeError \<and>
   map_sum id area (extract_key_data [''roof_area'' \<mapsto> PNone] (form_data ''10001'')) = Inr PNone \<and>
   calculate_quote [''roof_area'' \<mapsto> PNone] (form_data ''10001'') = Inl TypeError"
  by (simp add: engine_defs)

text \<open>
  Claim C8, amended. The extraction returns exactly when the material is absent or a
  string. Then each of area, pitch, height and condition is the row's value when the column
  is present (null included) and the default 2500, 15, 15, 80 when it is absent; the
  material is asphalt when absent and the lower-cased string otherwise, so it holds no
  upper-case letter. Lower-casing sends A to Z to a to z, moves every upper-case letter 32
  code points up and leaves every other character as it is. In every run that returns, the
  material cost is looked up under the lower-cased name.
\<close>

theorem normalization_defaults:
  "((\<exists>k. extract_key_data row r = Inr k) \<longleftrightarrow>
      row ''roof_material'' = None \<or> (\<exists>s. row ''roof_material'' = Some (PStr s))) \<and>
   (\<forall>k. extract_key_data row r = Inr k \<longrightarrow>
      area k = (case row ''roof_area'' of None \<Rightarrow> PNum 2500 | Some v \<Rightarrow> v) \<and>
      pitch k = (case row ''pitch'' of None \<Rightarrow> PNum 15 | Some v \<Rightarrow> v) \<and>
      height k = (case row ''height_ft'' of None \<Rightarrow> PNum 15 | Some v \<Rightarrow> v) \<and>
      condition k =
        (case row ''roof_condition_summary_score'' of None \<Rightarrow> PNum 80 | Some v \<Rightarrow> v) \<and>
      (row ''roof_material'' = None \<longrightarrow> material k = ''asphalt'') \<and>
      (\<forall>s. row ''roof_material'' = Some (PStr s) \<longrightarrow> material k = map lower_char s) \<and>
      (\<forall>c\<in>set (material k). \<not> upper_char c)) \<and>
   map lower_char ''ABCDEFGHIJKLMNOPQRSTUVWXYZ'' = ''abcdefghijklmnopqrstuvwxyz'' \<and>
   (upper_char c \<longrightarrow> (of_char (lower_char c) :: nat) = of_char c + 32) \<and>
   (\<not> upper_char c \<longrightarrow> lower_char c = c) \<and>
   (\<forall>b. calculate_quote_locals row r = Inr b \<longrightarrow>
      (\<exists>k a. extract_key_data row r = Inr k \<and> material b = material k \<and>
            area b = PNum a \<and>
            material_cost b = a * dict_get (material_costs r) (material k) 5))"
proof -
  have p1: "(\<exists>k. extract_key_data row r = Inr k) \<longleftrightarrow>
      row ''roof_material'' = None \<or> (\<exists>s. row ''roof_material'' = Some (PStr s))"
    by (auto simp: extract_key_data_def py_bind_eq_Inr py_lower_def dict_get_def
        split: option.splits pyval.splits)
  have p2: "\<forall>k. extract_key_data row r = Inr k \<longrightarrow>
      area k = (case row ''roof_area'' of None \<Rightarrow> PNum 2500 | Some v \<Rightarrow> v) \<and>
      pitch k = (case row ''pitch'' of None \<Rightarrow> PNum 15 | Some v \<Rightarrow> v) \<and>
      height k = (case row ''height_ft'' of None \<Rightarrow> PNum 15 | Some v \<Rightarrow> v) \<and>
      condition k =
        (case row ''roof_condition_summary_score'' of None \<Rightarrow> PNum 80 | Some v \<Rightarrow> v) \<and>
      (row ''roof_material'' = None \<longrightarrow> material k = ''asphalt'') \<and>
      (\<forall>s. row ''roof_material'' = Some (PStr s) \<longrightarrow> material k = map lower_char s) \<and>
      (\<forall>c\<in>set (material k). \<not> upper_char c)"
  proof (intro allI impI)
    fix k assume k: "extract_key_data row r = Inr k"
    note f = extract_key_data_fields [OF k]
    from f(6) have "\<exists>s. material k = map lower_char s"
      by (cases "dict_get row ''roof_material'' (PStr ''asphalt'')")
        (auto simp: py_lower_def intro: sym)
    then have "\<forall>c\<in>set (material k). \<not> upper_char c"
      by (auto simp: lower_char_not_upper)
    moreover have "material k = ''asphalt''" if "row ''roof_material'' = None"
      using f(6) that by (simp add: py_lower_def dict_get_def lower_char_def)
    moreover have "material k = map lower_char s" if "row ''roof_material'' = Some (PStr s)" for s
      using f(6) that by (simp add: py_lower_def dict_get_def)
    ultimately show "area k = (case row ''roof_area'' of None \<Rightarrow> PNum 2500 | Some v \<Rightarrow> v) \<and>
      pitch k = (case row ''pitch'' of None \<Rightarrow> PNum 15 | Some v \<Rightarrow> v) \<and>
      height k = (case row ''height_ft'' of None \<Rightarrow> PNum 15 | Some v \<Rightarrow> v) \<and>
      condition k =
        (case row ''roof_condition_summary_score'' of None \<Rightarrow> PNum 80 | Some v \<Rightarrow> v) \<and>
      (row ''roof_material'' = None \<longrightarrow> material k = ''asphalt'') \<and>
      (\<forall>s. row ''roof_material'' = Some (PStr s) \<longrightarrow> material k = map lower_char s) \<and>
      (\<forall>c\<in>set (material k). \<not> upper_char c)"
      by (simp add: f(1-4) dict_get_def)
  qed
  have p3: "upper_char c \<longrightarrow> (of_char (lower_char c) :: nat) = of_char c + 32"
    by (simp add: lower_char_upper)
  have p4: "\<not> upper_char c \<longrightarrow> lower_char c = c"
    by (simp add: lower_char_other)
  have p5: "\<forall>b. calculate_quote_locals row r = Inr b \<longrightarrow>
      (\<exists>k a. extract_key_data row r = Inr k \<and> material b = material k \<and>
            area b = PNum a \<and>
            material_cost b = a * dict_get (material_costs r) (material k) 5)"
  proof (intro allI impI)
    fix b assume "calculate_quote_locals row r = Inr b"
    then obtain k a where "extract_key_data row r = Inr k" and "area k = PNum a"
      and "area b = area k" and "material b = material k"
      and "material_cost b = a * dict_get (material_costs r) (material k) 5"
      by (rule calculate_quote_locals_Inr)
    then show "\<exists>k a. extract_key_data row r = Inr k \<and> material b = material k \<and>
            area b = PNum a \<and>
            material_cost b = a * dict_get (material_costs r) (material k) 5"
      by auto
  qed
  show ?thesis
    by (intro conjI) (rule p1 p2 lower_alphabet p3 p4 p5)+
qed

theorem normalization_defaults_witness:
  "(\<exists>k. extract_key_data [''roof_material'' \<mapsto> PStr ''MeTaL'', ''pitch'' \<mapsto> PNone]
         (form_data ''10001'') = Inr k \<and>
       area k = PNum 2500 \<and> pitch k = PNone \<and> height k = PNum 15 \<and> condition k = PNum 80 \<and>
       material k = ''metal'' \<and> (\<forall>c\<in>set (material k). \<not> upper_char c)) \<and>
   upper_char CHR ''Q'' \<and> lower_char CHR ''Q'' = CHR ''q'' \<and>
   \<not> upper_char CHR ''7'' \<and> lower_char CHR ''7'' = CHR ''7'' \<and>
   (\<exists>b. calculate_quote_locals upper_case_row (form_data ''10001'') = Inr b \<and>
        material b = ''metal'' \<and> material_cost b = 2500 * 7)"
proof -
  let ?r = "form_data ''10001''"
  let ?row = "[''roof_material'' \<mapsto> PStr ''MeTaL'', ''pitch'' \<mapsto> PNone]"
  note C = normalization_defaults [of ?row ?r "CHR ''Q''"]
  note C1 = C [THEN conjunct1]
  note C2 = C [THEN conjunct2, THEN conjunct1]
  have l: "map lower_char ''MeTaL'' = ''metal''"
    by code_simp
  from C1 obtain k where k: "extract_key_data ?row ?r = Inr k"
    by auto
  from C2 k have 1: "area k = PNum 2500 \<and> pitch k = PNone \<and> height k = PNum 15 \<and>
      condition k = PNum 80"
    by simp
  from C2 k have 2: "material k = map lower_char ''MeTaL''"
    by simp
  from C2 k have 3: "\<forall>c\<in>set (material k). \<not> upper_char c"
    by blast
  from 2 have "material k = ''metal''"
    unfolding l .
  with 1 3 k have A: "\<exists>k. extract_key_data ?row ?r = Inr k \<and>
       area k = PNum 2500 \<and> pitch k = PNone \<and> height k = PNum 15 \<and> condition k = PNum 80 \<and>
       material k = ''metal'' \<and> (\<forall>c\<in>set (material k). \<not> upper_char c)"
    by blast
  have q: "upper_char CHR ''Q''" "\<not> upper_char CHR ''7''"
    by (simp_all add: upper_char_def)
  from C q(1) have "(of_char (lower_char CHR ''Q'') :: nat) = of_char CHR ''q''"
    by simp
  then have Q: "lower_char CHR ''Q'' = CHR ''q''"
    by (simp only: of_char_eq_iff)
  from normalization_defaults [of ?row ?r "CHR ''7''"] q(2)
  have S: "lower_char CHR ''7'' = CHR ''7''"
    by blast
  note D = normalization_defaults [of upper_case_row ?r "CHR ''Q''"]
  note D2 = D [THEN conjunct2, THEN conjunct1]
  note D6 = D [THEN conjunct2, THEN conjunct2, THEN conjunct2, THEN conjunct2, THEN conjunct2]
  obtain b where b: "calculate_quote_locals upper_case_row ?r = Inr b"
    and a: "area b = PNum 2500"
    by (simp add: engine_defs upper_case_row_def form_data_def)
  from D6 b obtain k' a' where k': "extract_key_data upper_case_row ?r = Inr k'"
    and m: "material b = material k'" and a': "area b = PNum a'"
    and mc: "material_cost b = a' * dict_get (material_costs ?r) (material k') 5"
    by blast
  from D2 k' have "material k' = map lower_char ''MeTaL''"
    by (simp add: upper_case_row_def)
  then have mk: "material k' = ''metal''"
    unfolding l .
  from a a' have "a' = 2500"
    by simp
  with mc mk have "material_cost b = 2500 * 7"
    by (simp add: form_data_def dict_get_def)
  with b m mk have B: "\<exists>b. calculate_quote_locals upper_case_row ?r = Inr b \<and>
        material b = ''metal'' \<and> material_cost b = 2500 * 7"
    by auto
  from A q Q S B show ?thesis
    by blast
qed

subsection \<open>The region multiplier\<close>

text \<open>
  Claim C5, as stated, fails: a ZIP code that the form's own test rejects as malformed can
  still start with a high-cost prefix, and then the multiplier is 1.25, not 1.0.
\<close>

theorem malformed_zip_counterexample:
  "\<not> zip_regex_test ''11'' \<and> get_region_multiplier ''11'' = 5 / 4 \<and>
   get_region_multiplier ''11'' \<noteq> 1"
  by (simp add: zip_regex_test_def get_region_multiplier_def region_multiplier_from_def
      high_cost_zips_def startswith_def)

text \<open>
  Claim C5, amended. The multiplier is 1.25 when the ZIP code starts with a high-cost
  prefix, else 0.85 when it starts with a low-cost prefix, else 1.0. The high-cost list is
  tested first whatever the two lists are, so a ZIP code that both lists match gets 1.25.
  A ZIP code that starts with no listed prefix, the empty one among them, gets 1.0.
\<close>

theorem region_multiplier_precedence:
  "get_region_multiplier z =
     (if \<exists>p\<in>set high_cost_zips. prefix p z then 5 / 4
      else if \<exists>p\<in>set low_cost_zips. prefix p z then 17 / 20
      else 1) \<and>
   (startswith z hs \<longrightarrow> region_multiplier_from hs ls z = 5 / 4) \<and>
   (\<not> startswith z hs \<and> startswith z ls \<longrightarrow> region_multiplier_from hs ls z = 17 / 20) \<and>
   (\<not> startswith z hs \<and> \<not> startswith z ls \<longrightarrow> region_multiplier_from hs ls z = 1) \<and>
   (\<not> startswith z (high_cost_zips @ low_cost_zips) \<longrightarrow> get_region_multiplier z = 1) \<and>
   get_region_multiplier [] = 1"
  by (auto simp: get_region_multiplier_def region_multiplier_from_def startswith_def
      list_ex_iff high_cost_zips_def low_cost_zips_def)

theorem region_multiplier_precedence_witness:
  "get_region_multiplier ''10001'' = 5 / 4 \<and> get_region_multiplier ''83001'' = 17 / 20 \<and>
   get_region_multiplier ''50000'' = 1 \<and> get_region_multiplier ''abc'' = 1 \<and>
   startswith ''10001'' [''10''] \<and> startswith ''10001'' [''100''] \<and>
   region_multiplier_from [''10''] [''100''] ''10001'' = 5 / 4 \<and>
   region_multiplier_from [''9''] [''100''] ''10001'' = 17 / 20"
  using region_multiplier_precedence [of "''10001''" "[''10'']" "[''100'']"]
    region_multiplier_precedence [of "''83001''" "[''9'']" "[''100'']"]
    region_multiplier_precedence [of "''50000''"]
    region_multiplier_precedence [of "''abc''"]
    region_multiplier_precedence [of "''10001''" "[''9'']" "[''100'']"]
  by (simp add: startswith_def high_cost_zips_def low_cost_zips_def)

subsection \<open>Batch isolation\<close>

lemma batch_loop_append:
  "batch_loop f i (xs @ ys) rs es =
     (case batch_loop f i xs rs es of (rs', es') \<Rightarrow> batch_loop f (i + length xs) ys rs' es')"
  by (induction xs arbitrary: i rs es) (simp_all split: sum.splits)

lemma batch_loop_all_ok:
  "\<forall>x\<in>set xs. \<exists>q. f x = Inr q \<Longrightarrow>
   \<exists>qs. batch_loop f i xs rs es = (rs @ qs, es) \<and> map Inr qs = map f xs"
proof (induction xs arbitrary: i rs)
  case Nil
  then show ?case by simp
next
  case (Cons x xs)
  then obtain q where q: "f x = Inr q"
    by auto
  from Cons.prems have "\<forall>x\<in>set xs. \<exists>q. f x = Inr q"
    by simp
  from Cons.IH [OF this, of "Suc i" "rs @ [q]"]
  obtain qs where "batch_loop f (Suc i) xs (rs @ [q]) es = ((rs @ [q]) @ qs, es)"
    and "map Inr qs = map f xs"
    by blast
  with q have "batch_loop f i (x # xs) rs es = (rs @ (q # qs), es) \<and> map Inr (q # qs) = map f (x # xs)"
    by simp
  then show ?case
    by blast
qed

lemma batch_loop_length:
  "length (fst (batch_loop f i xs rs es)) + length (snd (batch_loop f i xs rs es)) =
     length rs + length es + length xs"
  by (induction xs arbitrary: i rs es) (simp_all split: sum.splits)

lemma batch_loop_one_failure:
  assumes "k < length xs" and "f (xs ! k) = Inl e"
    and "\<forall>i<length xs. i \<noteq> k \<longrightarrow> (\<exists>q. f (xs ! i) = Inr q)"
  shows "\<exists>qs. batch_loop f 0 xs [] [] = (qs, [(k, e)]) \<and>
           map Inr qs = map f (take k xs @ drop (Suc k) xs)"
proof -
  have xs: "xs = take k xs @ xs ! k # drop (Suc k) xs"
    using assms(1) by (rule id_take_nth_drop)
  have "\<forall>x\<in>set (take k xs). \<exists>q. f x = Inr q"
  proof
    fix x assume "x \<in> set (take k xs)"
    then obtain i where "i < k" and "x = xs ! i"
      using assms(1) by (auto simp: in_set_conv_nth)
    with assms(1,3) show "\<exists>q. f x = Inr q"
      by auto
  qed
  from batch_loop_all_ok [OF this, of 0 "[]" "[]"]
  obtain qs1 where 1: "batch_loop f 0 (take k xs) [] [] = (qs1, [])"
    and m1: "map Inr qs1 = map f (take k xs)"
    by auto
  have "\<forall>x\<in>set (drop (Suc k) xs). \<exists>q. f x = Inr q"
  proof
    fix x assume "x \<in> set (drop (Suc k) xs)"
    then obtain j where "j < length xs - Suc k" and "x = xs ! (Suc k + j)"
      by (auto simp: in_set_conv_nth)
    with assms(3) show "\<exists>q. f x = Inr q"
      by auto
  qed
  from batch_loop_all_ok [OF this, of "Suc k" qs1 "[(k, e)]"]
  obtain qs2 where 2: "batch_loop f (Suc k) (drop (Suc k) xs) qs1 [(k, e)] = (qs1 @ qs2, [(k, e)])"
    and m2: "map Inr qs2 = map f (drop (Suc k) xs)"
    by auto
  have "batch_loop f 0 xs [] [] =
      batch_loop f 0 (take k xs @ xs ! k # drop (Suc k) xs) [] []"
    using xs by simp
  also have "\<dots> = batch_loop f k (xs ! k # drop (Suc k) xs) qs1 []"
    using assms(1) by (simp add: batch_loop_append 1 min_absorb2)
  also have "\<dots> = (qs1 @ qs2, [(k, e)])"
    using assms(2) 2 by simp
  finally show ?thesis
    using m1 m2 by auto
qed

text \<open>
  Claim C6. When exactly one record of a batch fails, at index \<open>k\<close>, the batch returns one
  error entry, for index \<open>k\<close>, and one result for each of the other records, in input
  order: the failure neither stops nor reorders the processing of the other records.
\<close>

theorem batch_isolation:
  assumes "k < length rows" and "quote_record r (rows ! k) = Inl e"
    and "\<forall>i<length rows. i \<noteq> k \<longrightarrow> (\<exists>q. quote_record r (rows ! i) = Inr q)"
  shows "snd (run_batch r rows) = [(k, e)] \<and>
         length (fst (run_batch r rows)) = length rows - 1 \<and>
         map Inr (fst (run_batch r rows)) =
           map (quote_record r) (take k rows @ drop (Suc k) rows)"
proof -
  from batch_loop_one_failure [OF assms]
  obtain qs where b: "run_batch r rows = (qs, [(k, e)])"
    and m: "map Inr qs = map (quote_record r) (take k rows @ drop (Suc k) rows)"
    unfolding run_batch_def by blast
  from m have "length qs = length (take k rows @ drop (Suc k) rows)"
    by (metis length_map)
  with assms(1) have "length qs = length rows - 1"
    by simp
  with b m show ?thesis
    by simp
qed

theorem batch_isolation_witness:
  "snd (run_batch (form_data ''10001'') batch_rows) = [(1, ValidationError TypeError)] \<and>
   length (fst (run_batch (form_data ''10001'') batch_rows)) = 2 \<and>
   map fst (fst (run_batch (form_data ''10001'') batch_rows)) =
     [PStr ''1 First Street'', PStr ''3 Third Street'']"
proof -
  let ?r = "form_data ''10001''"
  have 0: "\<exists>b. quote_record ?r (batch_rows ! 0) = Inr (PStr ''1 First Street'', b)"
    by (simp add: quote_record_def batch_rows_def engine_defs example_row_def form_data_def)
  have 1: "quote_record ?r (batch_rows ! 1) = Inl (ValidationError TypeError)"
    by (simp add: quote_record_def batch_rows_def engine_defs example_row_def form_data_def)
  have 2: "\<exists>b. quote_record ?r (batch_rows ! 2) = Inr (PStr ''3 Third Street'', b)"
    by (simp add: quote_record_def batch_rows_def engine_defs large_steep_row_def form_data_def)
  have l: "length batch_rows = 3"
    by (simp add: batch_rows_def)
  have "\<forall>i<length batch_rows. i \<noteq> 1 \<longrightarrow> (\<exists>q. quote_record ?r (batch_rows ! i) = Inr q)"
  proof (intro allI impI)
    fix i assume "i < length batch_rows" and "i \<noteq> 1"
    then have "i = 0 \<or> i = 2"
      unfolding l by arith
    with 0 2 show "\<exists>q. quote_record ?r (batch_rows ! i) = Inr q"
      by blast
  qed
  from batch_isolation [of 1 batch_rows ?r, OF _ 1 this]
  have C: "snd (run_batch ?r batch_rows) = [(1, ValidationError TypeError)] \<and>
      length (fst (run_batch ?r batch_rows)) = length batch_rows - 1 \<and>
      map Inr (fst (run_batch ?r batch_rows)) =
        map (quote_record ?r) (take 1 batch_rows @ drop (Suc 1) batch_rows)"
    by (simp add: l)
  have t: "take 1 batch_rows @ drop (Suc 1) batch_rows = [batch_rows ! 0, batch_rows ! 2]"
    by (simp add: batch_rows_def)
  from 0 2 obtain b0 b2 where q: "quote_record ?r (batch_rows ! 0) = Inr (PStr ''1 First Street'', b0)"
    "quote_record ?r (batch_rows ! 2) = Inr (PStr ''3 Third Street'', b2)"
    by blast
  from C have "map Inr (fst (run_batch ?r batch_rows)) =
      map (quote_record ?r) [batch_rows ! 0, batch_rows ! 2]"
    unfolding t by blast
  also have "\<dots> = map Inr [(PStr ''1 First Street'', b0), (PStr ''3 Third Street'', b2)]"
    by (simp add: q)
  finally have "fst (run_batch ?r batch_rows) =
      [(PStr ''1 First Street'', b0), (PStr ''3 Third Street'', b2)]"
    by (auto simp: map_eq_Cons_conv)
  with C show ?thesis
    by (simp add: l)
qed

end
